theory Spec2Isabelle
  imports Complex_Main
begin

section \<open>Python values shared by both modules\<close>

text \<open>
  Exceptions are values. \<open>PyException\<close> is the bare \<^verbatim>\<open>Exception(msg)\<close> that
  \<^verbatim>\<open>aoa\<close> raises itself; the others are raised by the interpreter or by numpy
  on behalf of the code (an unbound name, an index out of range, a bad argument).
\<close>

datatype py_error =
    PyException string
  | NameError string
  | IndexError
  | KeyError
  | ValueError
  | TypeError

text \<open>
  A generator that has been driven until it stopped: the items it yielded, in order, and
  the exception that ended it, if one did.
\<close>

type_synonym 'a generated = "'a list \<times> py_error option"

text \<open>A fold as the splitters yield it: (test indices, excluded training indices).\<close>

type_synonym fold = "nat list \<times> nat list"

section \<open>Geometry as a capability\<close>

text \<open>
  The splitters call geopandas, shapely and a KD-tree. None of that is code of the
  repository, so the four geometric questions the splitters ask are parameters:
  \<^item> \<open>is_within p g\<close>: the predicate of \<^verbatim>\<open>gpd.sjoin(..., op='within')\<close>;
  \<^item> \<open>nearest_centroid gs p\<close>: the row position that
    \<^verbatim>\<open>KDTree(centroids).query(p, k=1, return_distance=False)\<close> returns;
  \<^item> \<open>in_tile_buffer g r p\<close>: point \<open>p\<close> survives \<^verbatim>\<open>gpd.clip\<close> by
    \<^verbatim>\<open>g.buffer(r)\<close>;
  \<^item> \<open>in_point_buffer c r p\<close>: point \<open>p\<close> survives \<^verbatim>\<open>gpd.clip\<close> by
    \<^verbatim>\<open>c.centroid.buffer(r)\<close>.

  The indices that survive a clip are listed in the order of the rows; geopandas does
  not promise that order.
\<close>

record ('p, 'g) geom_ops =
  is_within :: "'p \<Rightarrow> 'g \<Rightarrow> bool"
  nearest_centroid :: "'g list \<Rightarrow> 'p \<Rightarrow> nat"
  in_tile_buffer :: "'g \<Rightarrow> real \<Rightarrow> 'p \<Rightarrow> bool"
  in_point_buffer :: "'p \<Rightarrow> real \<Rightarrow> 'p \<Rightarrow> bool"

text \<open>
  One row of the grid frame that \<^verbatim>\<open>construct_blocks\<close> returns: its
  \<^verbatim>\<open>grid_id\<close> column and its polygon. The frame's index is the row position
  \<open>0, 1, ...\<close>.
\<close>

record 'g tile =
  grid_id :: int
  geometry :: 'g

section \<open>spacv: assign\_pt\_to\_grid\<close>

text \<open>
  \<^verbatim>\<open>gpd.sjoin(XYs, grid, how='left', op='within')\<close>: one row per (point, tile the
  point is within), in the order of the points; a point within no tile keeps one row
  whose \<^verbatim>\<open>grid_id\<close> is NaN (\<open>None\<close>). A row is (index label of the point,
  grid id).
\<close>

definition sjoin_left_within ::
  "('p \<Rightarrow> 'g \<Rightarrow> bool) \<Rightarrow> 'p list \<Rightarrow> 'g tile list \<Rightarrow> (nat \<times> int option) list" where
  "sjoin_left_within w XYs grid =
     concat (map (\<lambda>i.
        case filter (\<lambda>t. w (XYs ! i) (geometry t)) grid of
          [] \<Rightarrow> [(i, None)]
        | ts \<Rightarrow> map (\<lambda>t. (i, Some (grid_id t))) ts)
      [0..<length XYs])"

text \<open>
  \<^verbatim>\<open>
  def assign_pt_to_grid(XYs, grid):
      XYs = gpd.sjoin(XYs, grid, how='left' , op='within')
      # Nan are assigned to points at grid borders, so we map nan to nearest grid
      if XYs['grid_id'].isna().any():
          ...
          tree = KDTree(grid_centroid, metric='euclidean')
          grid_id  = tree.query(border_pts, k=1, return_distance=False)
          XYs.loc[border_pt_index, 'grid_id'] = grid_id
          XYs = XYs.drop(columns=['index_right'])
      return XYs
  \<close>
  The value written into the \<^verbatim>\<open>grid_id\<close> column of a border point is what the
  tree's query returns: the row position of the nearest centroid. A KD-tree cannot be
  built over no centroids (\<open>ValueError\<close>).
\<close>

definition assign_pt_to_grid ::
  "('p, 'g) geom_ops \<Rightarrow> 'p list \<Rightarrow> 'g tile list \<Rightarrow> py_error + (nat \<times> int option) list" where
  "assign_pt_to_grid G XYs grid =
     (let rows = sjoin_left_within (is_within G) XYs grid in
      if list_ex (\<lambda>(i, g). g = None) rows then
        (if grid = [] then Inl ValueError
         else Inr (map (\<lambda>(i, g).
                (case g of
                   None \<Rightarrow> (i, Some (int (nearest_centroid G (map geometry grid) (XYs ! i))))
                 | Some v \<Rightarrow> (i, Some v))) rows))
      else Inr rows)"

section \<open>spacv: HBLOCK\<close>

record HBLOCK =
  tiles_x :: nat
  tiles_y :: nat
  hb_method :: string
  buffer_radius :: real
  direction :: string
  n_groups :: nat

text \<open>
  The body of the \<^verbatim>\<open>for grid_id in grid_ids\<close> loop of
  \<^verbatim>\<open>HBLOCK._iter_test_indices\<close>. \<^verbatim>\<open>grid.loc[[grid_id]]\<close> looks the id up
  as a label of the grid's index (the row positions) and raises \<open>KeyError\<close> when it
  is none.
\<close>

fun hblock_loop ::
  "('p, 'g) geom_ops \<Rightarrow> real \<Rightarrow> 'p list \<Rightarrow> 'g tile list \<Rightarrow> (nat \<times> int option) list
     \<Rightarrow> int list \<Rightarrow> fold generated" where
  "hblock_loop G r XYs grid rows [] = ([], None)"
| "hblock_loop G r XYs grid rows (gid # gids) =
     (let test_points = map fst (filter (\<lambda>(i, g). g = Some gid) rows) in
      if length test_points < 1 then hblock_loop G r XYs grid rows gids
      else if r > 0 then
        (if 0 \<le> gid \<and> nat gid < length grid then
           (let grid_poly = geometry (grid ! nat gid);
                deadzone_points =
                  map fst (filter (\<lambda>(i, g). in_tile_buffer G grid_poly r (XYs ! i)) rows);
                hblock_train_exclude = filter (\<lambda>i. i \<notin> set test_points) deadzone_points;
                (fs, e) = hblock_loop G r XYs grid rows gids
            in ((test_points, hblock_train_exclude) # fs, e))
         else ([], Some KeyError))
      else
        (let (fs, e) = hblock_loop G r XYs grid rows gids
         in ((test_points, []) # fs, e)))"

text \<open>
  \<^verbatim>\<open>HBLOCK._iter_test_indices\<close>. \<^verbatim>\<open>construct_blocks\<close> lives in
  \<^verbatim>\<open>grid_builder\<close>, which is not among the sources: it is the parameter \<open>cb\<close>.
  \<^verbatim>\<open>np.unique(grid.grid_id)\<close> is the sorted list of the distinct ids.
\<close>

definition HBLOCK_iter_test_indices ::
  "('p, 'g) geom_ops
     \<Rightarrow> ('p list \<Rightarrow> nat \<Rightarrow> nat \<Rightarrow> string \<Rightarrow> string \<Rightarrow> nat \<Rightarrow> 'g tile list)
     \<Rightarrow> HBLOCK \<Rightarrow> 'p list \<Rightarrow> fold generated" where
  "HBLOCK_iter_test_indices G cb self X =
     (let grid = cb X (tiles_x self) (tiles_y self) (hb_method self) (direction self)
                   (n_groups self)
      in case assign_pt_to_grid G X grid of
           Inl e \<Rightarrow> ([], Some e)
         | Inr rows \<Rightarrow>
             hblock_loop G (HBLOCK.buffer_radius self) X grid rows
               (sort (remdups (map grid_id grid))))"

section \<open>spacv: SLOO\<close>

record SLOO =
  buffer_radius :: "real option"
  shuffle :: bool
  random_state :: "int option"

text \<open>
  \<^verbatim>\<open>
  def _iter_test_indices(self, X):
      buffer_radius = self.buffer_radius
      sloo_n = X.shape[0]
      for test_index in range(sloo_n):
          loo_buffer = X.loc[[test_index]].centroid.buffer(buffer_radius)
          sloo_train_exclude = gpd.clip(X, loo_buffer).index.values
          sloo_train_exclude = sloo_train_exclude[sloo_train_exclude != test_index]
          test_index = np.array([test_index])
          yield test_index, sloo_train_exclude
  \<close>
  The radius defaults to \<^verbatim>\<open>None\<close>, with which \<^verbatim>\<open>buffer\<close> cannot be
  called (\<open>TypeError\<close> in the first pass of the loop). The method reads neither
  \<^verbatim>\<open>self.shuffle\<close> nor \<^verbatim>\<open>self.random_state\<close>.
\<close>

fun sloo_loop ::
  "('p, 'g) geom_ops \<Rightarrow> real option \<Rightarrow> 'p list \<Rightarrow> nat list \<Rightarrow> fold generated" where
  "sloo_loop G br X [] = ([], None)"
| "sloo_loop G br X (test_index # rest) =
     (case br of
        None \<Rightarrow> ([], Some TypeError)
      | Some r \<Rightarrow>
          (let clipped = filter (\<lambda>j. in_point_buffer G (X ! test_index) r (X ! j))
                           [0..<length X];
               sloo_train_exclude = filter (\<lambda>j. j \<noteq> test_index) clipped;
               (fs, e) = sloo_loop G br X rest
           in (([test_index], sloo_train_exclude) # fs, e)))"

definition SLOO_iter_test_indices ::
  "('p, 'g) geom_ops \<Rightarrow> SLOO \<Rightarrow> 'p list \<Rightarrow> fold generated" where
  "SLOO_iter_test_indices G self X =
     sloo_loop G (SLOO.buffer_radius self) X [0..<length X]"

section \<open>spacv: cross\_val\_score\<close>

text \<open>
  The names bound in the module's namespace when \<^verbatim>\<open>cross_val_score\<close> runs: what
  the file imports (lines 1 to 7) and what it defines. A name that is neither here nor
  a builtin raises \<open>NameError\<close> when it is evaluated.
\<close>

definition module_globals :: "string list" where
  "module_globals =
     [''np'', ''gpd'', ''make_scorer'', ''KDTree'', ''BaseSpatialCV'',
      ''construct_blocks'', ''geometry_to_2d'',
      ''HBLOCK'', ''SLOO'', ''cross_val_score'', ''assign_pt_to_grid'']"

text \<open>numpy's \<^verbatim>\<open>X[index_array]\<close>: the rows at the indices, or \<open>IndexError\<close>.\<close>

definition take_rows :: "'a list \<Rightarrow> nat list \<Rightarrow> py_error + 'a list" where
  "take_rows xs idx =
     (if list_all (\<lambda>i. i < length xs) idx then Inr (map (\<lambda>i. xs ! i) idx)
      else Inl IndexError)"

text \<open>
  The loop of \<^verbatim>\<open>cross_val_score\<close> over \<^verbatim>\<open>cv.split(coordinates)\<close>.
  \<open>fit\<close> is \<^verbatim>\<open>model.fit\<close> (it returns the fitted model; the same object is
  refitted in every pass) and \<open>scorer\<close> is \<^verbatim>\<open>make_scorer(scoring)\<close>.
\<close>

fun cv_loop ::
  "('m \<Rightarrow> 'x list \<Rightarrow> 'y list \<Rightarrow> 'm) \<Rightarrow> ('m \<Rightarrow> 'x list \<Rightarrow> 'y list \<Rightarrow> real)
     \<Rightarrow> 'x list \<Rightarrow> 'y list \<Rightarrow> 'm \<Rightarrow> (nat list \<times> nat list) list \<Rightarrow> py_error + real list" where
  "cv_loop fit scorer X y model [] = Inr []"
| "cv_loop fit scorer X y model ((train_index, test_index) # rest) =
     (case take_rows X train_index of Inl e \<Rightarrow> Inl e | Inr Xtr \<Rightarrow>
     (case take_rows y train_index of Inl e \<Rightarrow> Inl e | Inr ytr \<Rightarrow>
     (let model' = fit model Xtr ytr in
     (case take_rows X test_index of Inl e \<Rightarrow> Inl e | Inr Xte \<Rightarrow>
     (case take_rows y test_index of Inl e \<Rightarrow> Inl e | Inr yte \<Rightarrow>
     (case cv_loop fit scorer X y model' rest of Inl e \<Rightarrow> Inl e
      | Inr scores \<Rightarrow> Inr (scorer model' Xte yte # scores)))))))"

text \<open>
  \<^verbatim>\<open>
  def cross_val_score(model, coordinates, X, y, cv, scoring):
      # Fallback to (a)spatial CV if None
      if cv is None:
          cv = KFold(shuffle=True, random_state=0, n_splits=5)
      ...
      for train_index, test_index in cv.split(coordinates): ...
  \<close>
  A splitter is its \<^verbatim>\<open>split\<close> method. \<open>kfold\<close> is what sklearn's
  \<^verbatim>\<open>KFold(shuffle, random_state, n_splits)\<close> would be, were the name bound.
\<close>

definition cross_val_score ::
  "(bool \<Rightarrow> int \<Rightarrow> nat \<Rightarrow> 'c \<Rightarrow> (nat list \<times> nat list) list)
     \<Rightarrow> ('m \<Rightarrow> 'x list \<Rightarrow> 'y list \<Rightarrow> 'm) \<Rightarrow> ('m \<Rightarrow> 'x list \<Rightarrow> 'y list \<Rightarrow> real)
     \<Rightarrow> 'm \<Rightarrow> 'c \<Rightarrow> 'x list \<Rightarrow> 'y list \<Rightarrow> ('c \<Rightarrow> (nat list \<times> nat list) list) option
     \<Rightarrow> py_error + real list" where
  "cross_val_score kfold fit scorer model coordinates X y cv =
     (case cv of
        None \<Rightarrow>
          (if ''KFold'' \<in> set module_globals
           then cv_loop fit scorer X y model (kfold True 0 5 coordinates)
           else Inl (NameError ''KFold''))
      | Some split \<Rightarrow> cv_loop fit scorer X y model (split coordinates))"

section \<open>Floating-point values\<close>

text \<open>
  numpy's float64 as far as the code depends on it: a finite number, the two infinities
  and NaN, which numpy also uses for "missing". Finite arithmetic is exact (rounding and
  the sign of zero are not modelled); the special values follow IEEE 754: NaN is
  absorbing and compares false with everything, \<open>inf - inf\<close>, \<open>0 * inf\<close>,
  \<open>0 / 0\<close> and \<open>inf / inf\<close> are NaN, \<open>x / 0\<close> is an infinity of the sign of
  \<open>x\<close>.
\<close>

datatype fl = Fin real | PInf | NInf | NaN

fun fl_neg :: "fl \<Rightarrow> fl" where
  "fl_neg (Fin a) = Fin (- a)"
| "fl_neg PInf = NInf"
| "fl_neg NInf = PInf"
| "fl_neg NaN = NaN"

fun fl_add :: "fl \<Rightarrow> fl \<Rightarrow> fl" where
  "fl_add NaN y = NaN"
| "fl_add x NaN = NaN"
| "fl_add (Fin a) (Fin b) = Fin (a + b)"
| "fl_add PInf NInf = NaN"
| "fl_add NInf PInf = NaN"
| "fl_add PInf y = PInf"
| "fl_add x PInf = PInf"
| "fl_add NInf y = NInf"
| "fl_add x NInf = NInf"

definition fl_sub :: "fl \<Rightarrow> fl \<Rightarrow> fl" where
  "fl_sub x y = fl_add x (fl_neg y)"

text \<open>The sign of a value that is not NaN, as \<open>-1\<close>, \<open>0\<close> or \<open>1\<close>.\<close>

fun fl_sgn :: "fl \<Rightarrow> int" where
  "fl_sgn (Fin a) = (if a > 0 then 1 else if a < 0 then - 1 else 0)"
| "fl_sgn PInf = 1"
| "fl_sgn NInf = - 1"
| "fl_sgn NaN = 0"

fun fl_mul :: "fl \<Rightarrow> fl \<Rightarrow> fl" where
  "fl_mul NaN y = NaN"
| "fl_mul x NaN = NaN"
| "fl_mul (Fin a) (Fin b) = Fin (a * b)"
| "fl_mul x y =
     (let s = fl_sgn x * fl_sgn y
      in if s = 0 then NaN else if s > 0 then PInf else NInf)"

fun fl_div :: "fl \<Rightarrow> fl \<Rightarrow> fl" where
  "fl_div NaN y = NaN"
| "fl_div x NaN = NaN"
| "fl_div (Fin a) (Fin b) =
     (if b \<noteq> 0 then Fin (a / b)
      else if a > 0 then PInf else if a < 0 then NInf else NaN)"
| "fl_div (Fin a) y = Fin 0"
| "fl_div x (Fin b) =
     (if (b \<ge> 0) = (x = PInf) then PInf else NInf)"
| "fl_div x y = NaN"

text \<open>\<open>fl_less x y\<close> is numpy's \<^verbatim>\<open>x < y\<close>; \<open>fl_le x y\<close> its \<^verbatim>\<open>x <= y\<close>.\<close>

fun fl_less :: "fl \<Rightarrow> fl \<Rightarrow> bool" where
  "fl_less NaN y = False"
| "fl_less x NaN = False"
| "fl_less (Fin a) (Fin b) = (a < b)"
| "fl_less PInf y = False"
| "fl_less x PInf = True"
| "fl_less x NInf = False"
| "fl_less NInf y = True"

definition fl_le :: "fl \<Rightarrow> fl \<Rightarrow> bool" where
  "fl_le x y = (x \<noteq> NaN \<and> y \<noteq> NaN \<and> \<not> fl_less y x)"

definition fl_sum :: "fl list \<Rightarrow> fl" where
  "fl_sum xs = foldr fl_add xs (Fin 0)"

text \<open>\<^verbatim>\<open>np.mean\<close> of a one-dimensional array: NaN propagates; the mean of nothing is NaN.\<close>

definition np_mean :: "fl list \<Rightarrow> fl" where
  "np_mean xs = fl_div (fl_sum xs) (Fin (real (length xs)))"

text \<open>
  \<^verbatim>\<open>np.nanmean\<close> and \<^verbatim>\<open>np.nanmin\<close> of one row: the NaN entries are left out;
  a row of nothing but NaN gives NaN (numpy warns, it does not raise).
\<close>

definition nanmean :: "fl list \<Rightarrow> fl" where
  "nanmean row =
     (let vals = filter (\<lambda>v. v \<noteq> NaN) row
      in if vals = [] then NaN else fl_div (fl_sum vals) (Fin (real (length vals))))"

definition nanmin :: "fl list \<Rightarrow> fl" where
  "nanmin row =
     (case filter (\<lambda>v. v \<noteq> NaN) row of
        [] \<Rightarrow> NaN
      | v # vs \<Rightarrow> foldl (\<lambda>a b. if fl_less b a then b else a) v vs)"

fun fl_insort :: "fl \<Rightarrow> fl list \<Rightarrow> fl list" where
  "fl_insort x [] = [x]"
| "fl_insort x (y # ys) = (if fl_less y x then y # fl_insort x ys else x # y # ys)"

definition fl_sort :: "fl list \<Rightarrow> fl list" where
  "fl_sort xs = foldr fl_insort xs []"

text \<open>
  \<^verbatim>\<open>np.quantile(a, q)\<close> of a one-dimensional array with the default linear
  interpolation: \<open>ValueError\<close> unless \<open>0 \<le> q \<le> 1\<close>; NaN when \<open>a\<close> holds a NaN (or is
  empty); otherwise the value at the fractional position \<open>q * (n - 1)\<close> of the sorted
  array, interpolated between its two neighbours.
\<close>

definition quantile :: "fl list \<Rightarrow> real \<Rightarrow> py_error + fl" where
  "quantile a q =
     (if \<not> (0 \<le> q \<and> q \<le> 1) then Inl ValueError
      else if a = [] \<or> NaN \<in> set a then Inr NaN
      else
        (let s = fl_sort a;
             h = q * real (length a - 1);
             lo = nat \<lfloor>h\<rfloor>;
             hi = min (lo + 1) (length a - 1);
             g = h - real lo
         in Inr (fl_add (s ! lo) (fl_mul (fl_sub (s ! hi) (s ! lo)) (Fin g)))))"

section \<open>visualisation: aoa\<close>

text \<open>
  A data frame is a list of rows, each a list of feature values. The values are finite
  floats, taken as exact reals: rounding, overflow and underflow are not modelled. A
  frame is rectangular; a list of rows of differing lengths has no counterpart in the
  code.

  Lines 296 and 297, \<^verbatim>\<open>(data - np.mean(data)) / np.std(data)\<close> on a data frame:
  column by column, the mean and the population standard deviation (numpy hands both
  calls to the frame's own methods, with \<^verbatim>\<open>ddof=0\<close>, and the frame reduces
  along its rows). A column whose values are all equal has the standard deviation 0
  and becomes NaN (\<open>0 / 0\<close>); so does every column of a frame with one row.
\<close>

definition column :: "real list list \<Rightarrow> nat \<Rightarrow> real list" where
  "column data j = map (\<lambda>row. row ! j) data"

definition col_mean :: "real list list \<Rightarrow> nat \<Rightarrow> real" where
  "col_mean data j = sum_list (column data j) / real (length data)"

definition col_std :: "real list list \<Rightarrow> nat \<Rightarrow> real" where
  "col_std data j =
     sqrt (sum_list (map (\<lambda>v. (v - col_mean data j) ^ 2) (column data j)) / real (length data))"

definition standardise :: "real list list \<Rightarrow> fl list list" where
  "standardise data =
     map (\<lambda>row. map (\<lambda>(j, v). fl_div (Fin (v - col_mean data j)) (Fin (col_std data j)))
                   (enumerate 0 row)) data"

text \<open>
  What sklearn and scipy supply, as parameters:
  \<^item> \<open>metrics name k\<close>: the distance function of \<^verbatim>\<open>BallTree(..., metric=name)\<close> on
    rows of \<open>k\<close> features, or \<open>None\<close> when \<^verbatim>\<open>BallTree\<close> refuses the name, or the
    number of features for that name, with \<open>ValueError\<close>;
  \<^item> \<open>pdist a b\<close>: the entry of \<^verbatim>\<open>pdist(training)\<close> for the rows \<open>a\<close> and \<open>b\<close>
    (always scipy's default metric: \<^verbatim>\<open>distance_metric\<close> is not passed on).
\<close>

record dist_lib =
  metrics :: "string \<Rightarrow> nat \<Rightarrow> (real list \<Rightarrow> real list \<Rightarrow> real) option"
  pdist :: "real list \<Rightarrow> real list \<Rightarrow> real"

fun is_fin :: "fl \<Rightarrow> bool" where
  "is_fin (Fin a) = True"
| "is_fin x = False"

text \<open>The number a finite value holds; it is only applied to values checked finite.\<close>

fun the_fin :: "fl \<Rightarrow> real" where
  "the_fin (Fin a) = a"
| "the_fin x = 0"

text \<open>
  sklearn's input check (\<^verbatim>\<open>check_array\<close>), which both \<^verbatim>\<open>BallTree(...)\<close> and
  \<^verbatim>\<open>tree.query(...)\<close> apply to their array: every row has \<open>k\<close> features and no
  entry is NaN or infinite.
\<close>

definition finite_rows :: "nat \<Rightarrow> fl list list \<Rightarrow> bool" where
  "finite_rows k rows = list_all (\<lambda>r. length r = k \<and> list_all is_fin r) rows"

text \<open>
  Lines 300 and 301,
  \<^verbatim>\<open>BallTree(training_data, metric=distance_metric).query(new_data, k=1)\<close>:
  the distance from each new row to its nearest training row. Every refusal is a
  \<open>ValueError\<close>: training data that is empty, has no feature or holds a NaN or an
  infinity; a metric \<^verbatim>\<open>BallTree\<close> does not take; new data that is empty, has
  another number of features or holds a NaN or an infinity.
\<close>

definition ball_tree_query ::
  "dist_lib \<Rightarrow> string \<Rightarrow> fl list list \<Rightarrow> fl list list \<Rightarrow> py_error + real list" where
  "ball_tree_query L distance_metric training new =
     (case training of
        [] \<Rightarrow> Inl ValueError
      | first # others \<Rightarrow>
          (let k = length first in
           if k = 0 \<or> \<not> finite_rows k training then Inl ValueError
           else
             (case metrics L distance_metric k of
                None \<Rightarrow> Inl ValueError
              | Some d \<Rightarrow>
                  (if new = [] \<or> \<not> finite_rows k new then Inl ValueError
                   else Inr (map (\<lambda>q. min_list (map (\<lambda>t. d (map the_fin q) (map the_fin t))
                                                  training)) new)))))"

text \<open>
  \<^verbatim>\<open>squareform(pdist(X))\<close>: the symmetric matrix of the pairwise distances, zero on
  the diagonal. \<^verbatim>\<open>np.fill_diagonal(m, np.nan)\<close> overwrites the diagonal.
\<close>

definition squareform :: "('r \<Rightarrow> 'r \<Rightarrow> fl) \<Rightarrow> 'r list \<Rightarrow> fl list list" where
  "squareform d X =
     map (\<lambda>i. map (\<lambda>j. if i = j then Fin 0
                         else d (X ! min i j) (X ! max i j)) [0..<length X])
       [0..<length X]"

definition fill_diagonal :: "fl list list \<Rightarrow> fl \<Rightarrow> fl list list" where
  "fill_diagonal m v = map (\<lambda>(i, row). row[i := v]) (enumerate 0 m)"

text \<open>
  Lines 309 to 323, the fold masking:
  \<^verbatim>\<open>
  if fold_indices:
      instances_in_folds = [len(fold) for fold in fold_indices]
      instance_fold_id = np.repeat(np.arange(0, len(fold_indices)), instances_in_folds)
      fold_indices = np.concatenate(fold_indices)
      folds = np.vstack((fold_indices, instance_fold_id)).T
      for i, row in enumerate(train_dist):
          mask = folds[:, 0] == folds[:, 0][i]
          train_dist[i, mask] = np.nan
  \<close>
  Column 0 of \<^verbatim>\<open>folds\<close> is the concatenation of the folds (the training indices),
  column 1 the fold id of each of them. The mask is computed from column 0 alone.
  \<^verbatim>\<open>folds[:, 0][i]\<close> raises \<open>IndexError\<close> when \<open>i\<close> is out of range, and so
  does a boolean mask whose length is not the row's.
\<close>

definition instance_fold_id :: "int list list \<Rightarrow> nat list" where
  "instance_fold_id fold_indices =
     concat (map (\<lambda>k. replicate (length (fold_indices ! k)) k) [0..<length fold_indices])"

definition folds_table :: "int list list \<Rightarrow> (int \<times> nat) list" where
  "folds_table fold_indices = zip (concat fold_indices) (instance_fold_id fold_indices)"

definition mask_row :: "(int \<times> nat) list \<Rightarrow> nat \<Rightarrow> fl list \<Rightarrow> py_error + fl list" where
  "mask_row folds i row =
     (if i \<ge> length folds then Inl IndexError
      else
        (let msk = map (\<lambda>f. fst f = fst (folds ! i)) folds
         in if length msk \<noteq> length row then Inl IndexError
            else Inr (map (\<lambda>(v, m). if m then NaN else v) (zip row msk))))"

fun mask_rows :: "(int \<times> nat) list \<Rightarrow> nat \<Rightarrow> fl list list \<Rightarrow> py_error + fl list list" where
  "mask_rows folds i [] = Inr []"
| "mask_rows folds i (row # rows) =
     (case mask_row folds i row of
        Inl e \<Rightarrow> Inl e
      | Inr row' \<Rightarrow>
          (case mask_rows folds (Suc i) rows of
             Inl e \<Rightarrow> Inl e
           | Inr rows' \<Rightarrow> Inr (row' # rows')))"

definition mask_folds :: "fl list list \<Rightarrow> int list list option \<Rightarrow> py_error + fl list list" where
  "mask_folds train_dist fold_indices =
     (case fold_indices of
        None \<Rightarrow> Inr train_dist
      | Some fs \<Rightarrow>
          (if fs = [] then Inr train_dist
           else mask_rows (folds_table fs) 0 train_dist))"

text \<open>
  Lines 326 and 327: the normalisation constant,
  \<^verbatim>\<open>np.mean(np.nanmean(train_dist, axis=1))\<close>.
\<close>

definition train_dist_avgmean :: "fl list list \<Rightarrow> fl" where
  "train_dist_avgmean train_dist = np_mean (map nanmean train_dist)"

text \<open>
  Lines 331 to 336: the threshold,
  \<^verbatim>\<open>np.quantile(np.nanmin(train_dist, axis=1) / train_dist_avgmean, q=thres)\<close>.
\<close>

definition aoa_thres :: "fl list list \<Rightarrow> real \<Rightarrow> py_error + fl" where
  "aoa_thres train_dist q =
     quantile (map (\<lambda>m. fl_div m (train_dist_avgmean train_dist)) (map nanmin train_dist)) q"

text \<open>
  Lines 308 to 343, \<^verbatim>\<open>aoa\<close> from the point where the distances are known:
  \<open>mindist\<close> (new point to nearest training point) and \<open>train_dist\<close> (the pairwise
  matrix with its diagonal already NaN). It returns \<^verbatim>\<open>(DIs, masked_result)\<close>;
  \<^verbatim>\<open>masked_result[DIs > thres] = 0\<close> leaves a one wherever the comparison is false.
\<close>

definition aoa_from_distances ::
  "fl list \<Rightarrow> fl list list \<Rightarrow> real \<Rightarrow> int list list option \<Rightarrow> py_error + (fl list \<times> nat list)"
  where
  "aoa_from_distances mindist train_dist thres fold_indices =
     (case mask_folds train_dist fold_indices of
        Inl e \<Rightarrow> Inl e
      | Inr td \<Rightarrow>
          (let DIs = map (\<lambda>m. fl_div m (train_dist_avgmean td)) mindist
           in case aoa_thres td thres of
                Inl e \<Rightarrow> Inl e
              | Inr t \<Rightarrow> Inr (DIs, map (\<lambda>d. if fl_less t d then 0 else 1) DIs)))"

text \<open>
  \<^verbatim>\<open>
  def aoa(new_data, training_data, model=None, thres=0.95, fold_indices=None,
          distance_metric="euclidean"):
      if len(training_data) <= 1:
          raise Exception("At least two training instances need to be specified.")
      training_data = (training_data - np.mean(training_data)) / np.std(training_data)
      new_data = (new_data - np.mean(new_data)) / np.std(new_data)
      tree = BallTree(training_data, metric=distance_metric)
      mindist, _ = tree.query(new_data, k=1, return_distance=True)
      paired_distances = pdist(training_data)
      train_dist = squareform(paired_distances)
      np.fill_diagonal(train_dist, np.nan)
      ...
  \<close>
\<close>

text \<open>
  Lines 304 to 306: the pairwise matrix of the standardised training rows, its diagonal
  set to NaN.
\<close>

definition aoa_train_dist :: "dist_lib \<Rightarrow> fl list list \<Rightarrow> fl list list" where
  "aoa_train_dist L training =
     fill_diagonal
       (squareform (\<lambda>a b. Fin (pdist L (map the_fin a) (map the_fin b))) training) NaN"

definition aoa ::
  "dist_lib \<Rightarrow> real list list \<Rightarrow> real list list \<Rightarrow> real \<Rightarrow> int list list option \<Rightarrow> string
     \<Rightarrow> py_error + (fl list \<times> nat list)" where
  "aoa L new_data training_data thres fold_indices distance_metric =
     (if length training_data \<le> 1
      then Inl (PyException ''At least two training instances need to be specified.'')
      else
        (let training' = standardise training_data;
             new' = standardise new_data
         in case ball_tree_query L distance_metric training' new' of
              Inl e \<Rightarrow> Inl e
            | Inr mindist \<Rightarrow>
                aoa_from_distances (map Fin mindist) (aoa_train_dist L training')
                  thres fold_indices))"

section \<open>visualisation: variogram\_at\_lag and compute\_semivariance\<close>










section \<open>Notions the claims are stated with\<close>

text \<open>Multiplying a distance by a positive constant \<open>c\<close>.\<close>

definition fl_scale :: "real \<Rightarrow> fl \<Rightarrow> fl" where
  "fl_scale c x = fl_mul (Fin c) x"



text \<open>
  A frame whose rows all have \<open>k\<close> features, none of them constant down its column:
  the frames whose standardisation holds numbers only.
\<close>

definition frame_ok :: "nat \<Rightarrow> real list list \<Rightarrow> bool" where
  "frame_ok k data =
     (list_all (\<lambda>row. length row = k) data \<and> list_all (\<lambda>j. col_std data j \<noteq> 0) [0..<k])"

text \<open>
  Fold indices the masking loop runs through: none, an empty list, or folds that list as
  many indices in total as there are training instances.
\<close>

definition folds_fit :: "int list list option \<Rightarrow> nat \<Rightarrow> bool" where
  "folds_fit fold_indices n =
     (case fold_indices of None \<Rightarrow> True | Some fs \<Rightarrow> fs = [] \<or> length (concat fs) = n)"


text \<open>A distance, a score or a mean that is a number is not negative.\<close>

definition nonneg_or_nan :: "fl \<Rightarrow> bool" where
  "nonneg_or_nan x = (x = NaN \<or> fl_le (Fin 0) x)"








section \<open>Instances used to run the definitions\<close>

text \<open>
  A concrete geometry for running the splitters on small inputs: points of the plane,
  tiles that are axis-parallel rectangles \<open>((minx, miny), (maxx, maxy))\<close>. A point is
  within a rectangle when it is in its interior; the nearest centroid is the first one
  at the least distance. The buffer of radius \<open>r > 0\<close> holds the points at distance at
  most \<open>r\<close>: the disc or rounded rectangle that shapely approximates from inside by a
  polygon, so that a point closer to the rim than that approximation is off may be
  judged differently there. The buffer of a point with a radius that is not positive
  is empty. Distances are compared by their squares.
\<close>

type_synonym point = "real \<times> real"
type_synonym rect = "(real \<times> real) \<times> (real \<times> real)"

definition sq_dist :: "point \<Rightarrow> point \<Rightarrow> real" where
  "sq_dist p q = (fst p - fst q) ^ 2 + (snd p - snd q) ^ 2"

definition rect_centroid :: "rect \<Rightarrow> point" where
  "rect_centroid g =
     ((fst (fst g) + fst (snd g)) / 2, (snd (fst g) + snd (snd g)) / 2)"

definition rect_within :: "point \<Rightarrow> rect \<Rightarrow> bool" where
  "rect_within p g =
     (fst (fst g) < fst p \<and> fst p < fst (snd g) \<and> snd (fst g) < snd p \<and> snd p < snd (snd g))"

definition rect_sq_dist :: "point \<Rightarrow> rect \<Rightarrow> real" where
  "rect_sq_dist p g =
     (max (fst (fst g) - fst p) (max 0 (fst p - fst (snd g)))) ^ 2
     + (max (snd (fst g) - snd p) (max 0 (snd p - snd (snd g)))) ^ 2"

fun argmin_from :: "real list \<Rightarrow> nat \<Rightarrow> nat \<Rightarrow> real \<Rightarrow> nat" where
  "argmin_from [] k best bv = best"
| "argmin_from (d # ds) k best bv =
     (if d < bv then argmin_from ds (Suc k) k d else argmin_from ds (Suc k) best bv)"

definition argmin :: "real list \<Rightarrow> nat" where
  "argmin ds = (case ds of [] \<Rightarrow> 0 | d # rest \<Rightarrow> argmin_from rest 1 0 d)"

definition plane_geom :: "(point, rect) geom_ops" where
  "plane_geom =
     \<lparr> is_within = rect_within,
       nearest_centroid = (\<lambda>gs p. argmin (map (\<lambda>g. sq_dist p (rect_centroid g)) gs)),
       in_tile_buffer = (\<lambda>g r p. 0 < r \<and> rect_sq_dist p g \<le> r ^ 2),
       in_point_buffer = (\<lambda>c r p. 0 < r \<and> sq_dist c p \<le> r ^ 2) \<rparr>"

text \<open>
  The Euclidean distance of two rows, and a library that has it both as the tree's
  metric \<^verbatim>\<open>"euclidean"\<close>, for any number of features, and as the metric of
  \<^verbatim>\<open>pdist\<close> (scipy's default). The other metric names of sklearn are not part of
  this instance.
\<close>

definition euclidean :: "real list \<Rightarrow> real list \<Rightarrow> real" where
  "euclidean a b = sqrt (sum_list (map (\<lambda>(u, v). (u - v) ^ 2) (zip a b)))"

definition euclid_lib :: dist_lib where
  "euclid_lib =
     \<lparr> metrics = (\<lambda>name k. if name = ''euclidean'' then Some euclidean else None),
       pdist = euclidean \<rparr>"

text \<open>
  Two unit tiles side by side, \<open>[0, 1] \<times> [0, 1]\<close> and \<open>[1, 2] \<times> [0, 1]\<close>, with the
  ids \<open>a\<close> and \<open>b\<close>: what a tile provider returns for \<^verbatim>\<open>tiles_x = 2\<close>,
  \<^verbatim>\<open>tiles_y = 1\<close> over points whose bounding box is \<open>[0, 2] \<times> [0, 1]\<close>.
\<close>

definition two_tiles :: "int \<Rightarrow> int \<Rightarrow> rect tile list" where
  "two_tiles a b =
     [\<lparr>grid_id = a, geometry = ((0, 0), (1, 1))\<rparr>,
      \<lparr>grid_id = b, geometry = ((1, 0), (2, 1))\<rparr>]"


section \<open>Properties of SLOO\<close>

lemma sloo_loop_Some:
  "sloo_loop G (Some r) X idx =
     (map (\<lambda>i. ([i], filter (\<lambda>j. j \<noteq> i)
                  (filter (\<lambda>j. in_point_buffer G (X ! i) r (X ! j)) [0..<length X]))) idx,
      None)"
  by (induction idx) simp_all

text \<open>
  Claim C9. With a radius configured, SLOO yields exactly one fold per point, in index
  order and without an error: the fold of point \<open>i\<close> has the test set \<open>[i]\<close>, and its
  excluded set is exactly the set of the other indices whose point lies in the buffer
  of radius \<open>r\<close> around point \<open>i\<close>; \<open>i\<close> itself is never excluded.
\<close>

theorem SLOO_one_fold_per_point:
  assumes "SLOO.buffer_radius self = Some r"
  shows "\<exists>folds. SLOO_iter_test_indices G self X = (folds, None)
           \<and> length folds = length X
           \<and> (\<forall>i < length X.
                 fst (folds ! i) = [i]
               \<and> i \<notin> set (snd (folds ! i))
               \<and> set (snd (folds ! i)) =
                   {j. j < length X \<and> j \<noteq> i \<and> in_point_buffer G (X ! i) r (X ! j)})"
proof -
  let ?ex = "\<lambda>i. filter (\<lambda>j. j \<noteq> i)
                  (filter (\<lambda>j. in_point_buffer G (X ! i) r (X ! j)) [0..<length X])"
  let ?folds = "map (\<lambda>i. ([i], ?ex i)) [0..<length X]"
  have run: "SLOO_iter_test_indices G self X = (?folds, None)"
    using assms by (simp add: SLOO_iter_test_indices_def sloo_loop_Some)
  have "\<forall>i < length X. fst (?folds ! i) = [i] \<and> i \<notin> set (snd (?folds ! i))
          \<and> set (snd (?folds ! i)) =
              {j. j < length X \<and> j \<noteq> i \<and> in_point_buffer G (X ! i) r (X ! j)}"
    by auto
  with run show ?thesis
    by (intro exI[of _ ?folds]) simp
qed

text \<open>
  The scenario of the specification: four collinear points at \<open>x = 0, 1, 2, 3\<close> and a
  radius of \<open>1.5\<close>; the fold of point 1 excludes the points 0 and 2 and not point 3.
\<close>

theorem SLOO_one_fold_per_point_witness:
  "SLOO.buffer_radius \<lparr>SLOO.buffer_radius = Some (3/2), shuffle = False, random_state = None\<rparr>
     = Some (3/2)
   \<and> (\<exists>folds.
        SLOO_iter_test_indices plane_geom
          \<lparr>SLOO.buffer_radius = Some (3/2), shuffle = False, random_state = None\<rparr>
          [(0, 0), (1, 0), (2, 0), (3, 0)] = (folds, None)
        \<and> length folds = 4
        \<and> fst (folds ! 1) = [1]
        \<and> 1 \<notin> set (snd (folds ! 1))
        \<and> set (snd (folds ! 1)) = {0, 2})"
proof -
  let ?s = "\<lparr>SLOO.buffer_radius = Some (3/2), shuffle = False, random_state = None\<rparr>"
  let ?X = "[(0, 0), (1, 0), (2, 0), (3, 0)] :: point list"
  have h: "SLOO.buffer_radius ?s = Some (3/2)" by simp
  have run: "SLOO_iter_test_indices plane_geom ?s ?X
      = ([([0], [1]), ([1], [0, 2]), ([2], [1, 3]), ([3], [2])], None)"
    by (simp add: SLOO_iter_test_indices_def sloo_loop_Some plane_geom_def sq_dist_def
        upt_rec power2_eq_square)
  obtain folds where "SLOO_iter_test_indices plane_geom ?s ?X = (folds, None)"
    using SLOO_one_fold_per_point [OF h, of plane_geom ?X] by blast
  with run have "folds = [([0], [1]), ([1], [0, 2]), ([2], [1, 3]), ([3], [2])]"
    by simp
  with run show ?thesis by simp
qed

text \<open>
  Claim C10, as amended. \<^verbatim>\<open>SLOO._iter_test_indices\<close> reads neither
  \<^verbatim>\<open>shuffle\<close> nor \<^verbatim>\<open>random_state\<close>: whatever they are set to, the folds
  and their order are those of the unshuffled run.
\<close>

theorem SLOO_shuffle_not_consulted:
  "SLOO_iter_test_indices G (self\<lparr>shuffle := b, random_state := rs\<rparr>) X
     = SLOO_iter_test_indices G self X"
  by (simp add: SLOO_iter_test_indices_def)

text \<open>
  Claim C10 as stated asks for an input and a random state for which the shuffled order
  differs from the unshuffled one. There is none.
\<close>

theorem SLOO_shuffle_order_counterexample:
  "\<not> (\<exists>(G :: (point, rect) geom_ops) r rs X.
        SLOO_iter_test_indices G
          \<lparr>SLOO.buffer_radius = r, shuffle = True, random_state = rs\<rparr> X
        \<noteq> SLOO_iter_test_indices G
          \<lparr>SLOO.buffer_radius = r, shuffle = False, random_state = rs\<rparr> X)"
  by (simp add: SLOO_iter_test_indices_def)

section \<open>Properties of HBLOCK\<close>

text \<open>
  Claim C1. Three points, two of them corners of the bounding box (so on the border of a
  tile, within none) and one inside the first tile. With the tiles numbered 1 and 2,
  point 0 gets the row position 0 of its nearest centroid as its grid id, which is no
  tile's id: it is in no fold's test set, and point 1, on the far edge of tile 2, lands
  in the fold of tile 1. With both tiles in group 0, point 1 gets the row position 1 and
  is in no fold's test set. In both runs the test sets do not cover the indices
  \<open>0, 1, 2\<close>.
\<close>

theorem HBLOCK_border_point_in_no_fold:
  "HBLOCK_iter_test_indices plane_geom (\<lambda>X tx ty m d n. two_tiles 1 2)
     \<lparr>tiles_x = 2, tiles_y = 1, hb_method = ''unique'', HBLOCK.buffer_radius = 0,
       direction = ''diagonal'', n_groups = 5\<rparr>
     [(0, 0), (2, 1), (1/2, 1/2)] = ([([1, 2], [])], None)
   \<and> HBLOCK_iter_test_indices plane_geom (\<lambda>X tx ty m d n. two_tiles 0 0)
     \<lparr>tiles_x = 2, tiles_y = 1, hb_method = ''random'', HBLOCK.buffer_radius = 0,
       direction = ''diagonal'', n_groups = 1\<rparr>
     [(0, 0), (2, 1), (1/2, 1/2)] = ([([0, 2], [])], None)"
  by (simp add: HBLOCK_iter_test_indices_def assign_pt_to_grid_def sjoin_left_within_def
      two_tiles_def plane_geom_def rect_within_def rect_centroid_def sq_dist_def argmin_def
      upt_rec power2_eq_square)

section \<open>Properties of aoa\<close>

text \<open>
  Claim C2. Three training points, points 0 and 1 in one fold and point 2 in another.
  The masking step returns the distance matrix as it was: the distance between the
  points 0 and 1, which share a fold, is still there.
\<close>

theorem mask_folds_keeps_same_fold_distance:
  "mask_folds [[NaN, Fin 1, Fin 2], [Fin 1, NaN, Fin 1], [Fin 2, Fin 1, NaN]]
     (Some [[0, 1], [2]])
   = Inr [[NaN, Fin 1, Fin 2], [Fin 1, NaN, Fin 1], [Fin 2, Fin 1, NaN]]"
  by (simp add: mask_folds_def folds_table_def instance_fold_id_def mask_row_def upt_rec)

section \<open>Floating-point lemmas\<close>

lemma fl_add_NaN_right [simp]: "fl_add x NaN = NaN"
  by (cases x) simp_all

lemma fl_sum_Nil [simp]: "fl_sum [] = Fin 0"
  by (simp add: fl_sum_def)

lemma fl_sum_Cons [simp]: "fl_sum (x # xs) = fl_add x (fl_sum xs)"
  by (simp add: fl_sum_def)




lemma fl_scale_simps [simp]:
  "fl_scale c NaN = NaN"
  "fl_scale c (Fin a) = Fin (c * a)"
  "0 < c \<Longrightarrow> fl_scale c PInf = PInf"
  "0 < c \<Longrightarrow> fl_scale c NInf = NInf"
  by (simp_all add: fl_scale_def)

lemma fl_scale_eq_NaN [simp]: "0 < c \<Longrightarrow> fl_scale c x = NaN \<longleftrightarrow> x = NaN"
  by (cases x) simp_all




















section \<open>Scaling the distances of aoa\<close>





section \<open>The example run of aoa\<close>

text \<open>
  One feature. The training rows \<open>-1, 1\<close> and the new rows \<open>-1, -1, 0, 0, 0, 2\<close> each
  have the mean 0 and the standard deviation 1, so the standardisation returns them as
  they are. The pairwise training distance is 2, which is also the normalisation
  constant; the nearest training distances of the new rows are \<open>0, 0, 1, 1, 1, 1\<close>; the
  threshold is the quantile of \<open>1, 1\<close>.
\<close>

lemma euclidean_1d: "euclidean [a] [b] = \<bar>a - b\<bar>"
  by (simp add: euclidean_def)

lemma std_train: "standardise [[-1], [1]] = [[Fin (-1)], [Fin 1]]"
  by (simp add: standardise_def col_std_def col_mean_def column_def)



lemma run_train_dist:
  "aoa_train_dist euclid_lib [[Fin (-1)], [Fin 1]] = [[NaN, Fin 2], [Fin 2, NaN]]"
  by (simp add: aoa_train_dist_def squareform_def fill_diagonal_def euclid_lib_def
      euclidean_1d upt_rec)









section \<open>When aoa raises\<close>

lemma length_instance_fold_id: "length (instance_fold_id fs) = length (concat fs)"
proof -
  have "map (\<lambda>k. length (fs ! k)) [0..<length fs] = map length fs"
    by (intro nth_equalityI) simp_all
  then show ?thesis
    by (simp add: instance_fold_id_def length_concat comp_def)
qed

lemma length_folds_table: "length (folds_table fs) = length (concat fs)"
  by (simp add: folds_table_def length_instance_fold_id)

lemma mask_row_Inr_iff:
  "(\<exists>r. mask_row folds i row = Inr r) \<longleftrightarrow> i < length folds \<and> length folds = length row"
  by (auto simp: mask_row_def Let_def)

lemma mask_row_Inl: "mask_row folds i row = Inl e \<Longrightarrow> e = IndexError"
  by (auto simp: mask_row_def Let_def split: if_splits)

lemma mask_rows_Inl: "mask_rows folds i rows = Inl e \<Longrightarrow> e = IndexError"
  by (induction rows arbitrary: i) (auto split: sum.splits dest: mask_row_Inl)

lemma mask_rows_Inr_iff:
  "(\<exists>r. mask_rows folds i rows = Inr r)
     \<longleftrightarrow> (\<forall>k < length rows. i + k < length folds \<and> length folds = length (rows ! k))"
proof (induction rows arbitrary: i)
  case Nil
  show ?case by simp
next
  case (Cons row rows)
  have "(\<exists>r. mask_rows folds i (row # rows) = Inr r)
      \<longleftrightarrow> (\<exists>r. mask_row folds i row = Inr r) \<and> (\<exists>r. mask_rows folds (Suc i) rows = Inr r)"
    by (auto split: sum.splits)
  also have "\<dots> \<longleftrightarrow> (i < length folds \<and> length folds = length row)
      \<and> (\<forall>k < length rows. Suc i + k < length folds \<and> length folds = length (rows ! k))"
    by (simp only: mask_row_Inr_iff Cons.IH)
  also have "\<dots> \<longleftrightarrow> (\<forall>k < length (row # rows).
        i + k < length folds \<and> length folds = length ((row # rows) ! k))"
    by (auto simp: less_Suc_eq_0_disj)
  finally show ?case .
qed

lemma length_aoa_train_dist [simp]: "length (aoa_train_dist L tr) = length tr"
  by (simp add: aoa_train_dist_def fill_diagonal_def squareform_def)

lemma length_row_aoa_train_dist:
  "k < length tr \<Longrightarrow> length (aoa_train_dist L tr ! k) = length tr"
  by (simp add: aoa_train_dist_def fill_diagonal_def squareform_def nth_enumerate_eq)

lemma mask_folds_Inl: "mask_folds td folds = Inl e \<Longrightarrow> e = IndexError"
  by (auto simp: mask_folds_def split: option.splits if_splits dest: mask_rows_Inl)

lemma mask_folds_train_dist_Inr_iff:
  assumes "1 \<le> length tr"
  shows "(\<exists>r. mask_folds (aoa_train_dist L tr) folds = Inr r) \<longleftrightarrow> folds_fit folds (length tr)"
proof (cases folds)
  case None
  then show ?thesis by (simp add: mask_folds_def folds_fit_def)
next
  case (Some fs)
  show ?thesis
  proof (cases "fs = []")
    case True
    with Some show ?thesis by (simp add: mask_folds_def folds_fit_def)
  next
    case False
    have "(\<exists>r. mask_rows (folds_table fs) 0 (aoa_train_dist L tr) = Inr r)
        \<longleftrightarrow> length (concat fs) = length tr"
    proof -
      have "(\<forall>k < length tr. k < length (concat fs) \<and> length (concat fs) = length tr)
          \<longleftrightarrow> length (concat fs) = length tr"
        using assms by (auto dest: spec [of _ 0])
      then show ?thesis
        by (simp add: mask_rows_Inr_iff length_folds_table length_row_aoa_train_dist
            cong: conj_cong)
    qed
    with Some False show ?thesis by (simp add: mask_folds_def folds_fit_def)
  qed
qed

lemma quantile_Inr_iff: "(\<exists>t. quantile a q = Inr t) \<longleftrightarrow> 0 \<le> q \<and> q \<le> 1"
  by (auto simp: quantile_def Let_def)

lemma quantile_Inl: "quantile a q = Inl e \<Longrightarrow> e = ValueError"
  by (auto simp: quantile_def Let_def split: if_splits)

lemma aoa_from_distances_Inr_iff:
  "(\<exists>r. aoa_from_distances md td q folds = Inr r)
     \<longleftrightarrow> (\<exists>td'. mask_folds td folds = Inr td') \<and> 0 \<le> q \<and> q \<le> 1"
proof (cases "mask_folds td folds")
  case (Inl e)
  then show ?thesis by (simp add: aoa_from_distances_def)
next
  case (Inr td')
  have "(\<exists>r. (case aoa_thres td' q of Inl e \<Rightarrow> Inl e
            | Inr t \<Rightarrow> Inr (map (\<lambda>m. fl_div m (train_dist_avgmean td')) md,
                map (\<lambda>d. if fl_less t d then 0 else 1)
                  (map (\<lambda>m. fl_div m (train_dist_avgmean td')) md))) = Inr r)
      \<longleftrightarrow> (\<exists>t. aoa_thres td' q = Inr t)"
    by (cases "aoa_thres td' q") simp_all
  with Inr show ?thesis
    by (simp add: aoa_from_distances_def Let_def aoa_thres_def quantile_Inr_iff)
qed

lemma aoa_from_distances_Inl:
  "aoa_from_distances md td q folds = Inl e \<Longrightarrow> e = IndexError \<or> e = ValueError"
  by (auto simp: aoa_from_distances_def Let_def aoa_thres_def
      split: sum.splits dest: mask_folds_Inl quantile_Inl)

lemma length_standardise [simp]: "length (standardise data) = length data"
  by (simp add: standardise_def)

lemma length_hd_standardise:
  "data \<noteq> [] \<Longrightarrow> length (hd (standardise data)) = length (hd data)"
  by (cases data) (simp_all add: standardise_def)

lemma is_fin_div: "is_fin (fl_div (Fin a) (Fin b)) \<longleftrightarrow> b \<noteq> 0"
  by simp

lemma standardised_row_finite:
  "list_all is_fin (map (\<lambda>(j, v). fl_div (Fin (v - m j)) (Fin (s j))) (enumerate 0 row))
     \<longleftrightarrow> (\<forall>j < length row. s j \<noteq> 0)"
proof -
  have "is_fin (map (\<lambda>(j, v). fl_div (Fin (v - m j)) (Fin (s j))) (enumerate 0 row) ! j)
      \<longleftrightarrow> s j \<noteq> 0" if "j < length row" for j
    using that by (simp add: nth_enumerate_eq is_fin_div del: fl_div.simps)
  then show ?thesis
    by (simp add: list_all_length del: fl_div.simps)
qed

lemma finite_rows_standardise:
  assumes "data \<noteq> []"
  shows "finite_rows k (standardise data) \<longleftrightarrow> frame_ok k data"
proof -
  let ?std = "\<lambda>row. map (\<lambda>(j, v). fl_div (Fin (v - col_mean data j)) (Fin (col_std data j)))
                       (enumerate 0 row)"
  have row: "length (?std row) = k \<and> list_all is_fin (?std row)
      \<longleftrightarrow> length row = k \<and> (\<forall>j < length row. col_std data j \<noteq> 0)" for row
    by (simp only: standardised_row_finite length_map length_enumerate)
  have "finite_rows k (standardise data)
      \<longleftrightarrow> (\<forall>row \<in> set data. length (?std row) = k \<and> list_all is_fin (?std row))"
    by (simp add: finite_rows_def standardise_def list_all_iff del: fl_div.simps)
  also have "\<dots> \<longleftrightarrow> (\<forall>row \<in> set data. length row = k \<and> (\<forall>j < length row. col_std data j \<noteq> 0))"
    by (simp only: row)
  also have "\<dots> \<longleftrightarrow> (\<forall>row \<in> set data. length row = k) \<and> (\<forall>j < k. col_std data j \<noteq> 0)"
    using assms by (cases data) auto
  finally show ?thesis
    by (auto simp: frame_ok_def list_all_iff)
qed

lemma ball_tree_query_Inr_iff:
  "(\<exists>r. ball_tree_query L metric tr nw = Inr r)
     \<longleftrightarrow> tr \<noteq> [] \<and> 0 < length (hd tr) \<and> finite_rows (length (hd tr)) tr
         \<and> (\<exists>d. metrics L metric (length (hd tr)) = Some d)
         \<and> nw \<noteq> [] \<and> finite_rows (length (hd tr)) nw"
  by (cases tr) (auto simp: ball_tree_query_def Let_def split: option.splits)

lemma ball_tree_query_Inl: "ball_tree_query L metric tr nw = Inl e \<Longrightarrow> e = ValueError"
  by (cases tr) (auto simp: ball_tree_query_def Let_def split: option.splits if_splits)

lemma aoa_unfold:
  "aoa L new_data tr thres folds metric =
     (if length tr \<le> 1
      then Inl (PyException ''At least two training instances need to be specified.'')
      else (case ball_tree_query L metric (standardise tr) (standardise new_data) of
              Inl e \<Rightarrow> Inl e
            | Inr mindist \<Rightarrow>
                aoa_from_distances (map Fin mindist) (aoa_train_dist L (standardise tr))
                  thres folds))"
  by (simp add: aoa_def Let_def)

lemma aoa_Inr_iff:
  assumes "1 < length tr"
  shows "(\<exists>r. aoa L new_data tr thres folds metric = Inr r)
     \<longleftrightarrow> 0 < length (hd tr) \<and> frame_ok (length (hd tr)) tr
         \<and> (\<exists>d. metrics L metric (length (hd tr)) = Some d)
         \<and> new_data \<noteq> [] \<and> frame_ok (length (hd tr)) new_data
         \<and> 0 \<le> thres \<and> thres \<le> 1 \<and> folds_fit folds (length tr)"
proof -
  let ?k = "length (hd tr)"
  let ?q = "ball_tree_query L metric (standardise tr) (standardise new_data)"
  from assms have tr: "tr \<noteq> []" and n: "1 \<le> length (standardise tr)" "\<not> length tr \<le> 1"
    by auto
  have tree: "(\<exists>md. ?q = Inr md)
      \<longleftrightarrow> 0 < ?k \<and> frame_ok ?k tr \<and> (\<exists>d. metrics L metric ?k = Some d)
          \<and> new_data \<noteq> [] \<and> frame_ok ?k new_data"
  proof (cases "new_data = []")
    case True
    then show ?thesis
      by (simp add: ball_tree_query_Inr_iff standardise_def)
  next
    case False
    have "standardise tr \<noteq> []" "standardise new_data \<noteq> []"
      using tr False by (simp_all add: standardise_def)
    then show ?thesis
      using tr False
      by (simp add: ball_tree_query_Inr_iff length_hd_standardise finite_rows_standardise)
  qed
  have rest: "(\<exists>r. aoa_from_distances md (aoa_train_dist L (standardise tr)) thres folds = Inr r)
      \<longleftrightarrow> 0 \<le> thres \<and> thres \<le> 1 \<and> folds_fit folds (length tr)" for md
    unfolding aoa_from_distances_Inr_iff mask_folds_train_dist_Inr_iff [OF n(1)]
    by auto
  show ?thesis
  proof (cases ?q)
    case (Inl e)
    then have "\<not> (\<exists>md. ?q = Inr md)" by simp
    then have no: "\<not> (0 < ?k \<and> frame_ok ?k tr \<and> (\<exists>d. metrics L metric ?k = Some d)
          \<and> new_data \<noteq> [] \<and> frame_ok ?k new_data)"
      unfolding tree .
    have "aoa L new_data tr thres folds metric = Inl e"
      using Inl n(2) by (simp add: aoa_unfold)
    then have "\<not> (\<exists>r. aoa L new_data tr thres folds metric = Inr r)" by simp
    with no show ?thesis by blast
  next
    case (Inr md)
    then have "\<exists>md. ?q = Inr md" by simp
    with tree have t: "0 < ?k \<and> frame_ok ?k tr \<and> (\<exists>d. metrics L metric ?k = Some d)
          \<and> new_data \<noteq> [] \<and> frame_ok ?k new_data"
      by simp
    have "aoa L new_data tr thres folds metric
        = aoa_from_distances (map Fin md) (aoa_train_dist L (standardise tr)) thres folds"
      using Inr n(2) by (simp add: aoa_unfold)
    with rest [of "map Fin md"] t show ?thesis
      by simp
  qed
qed

lemma aoa_Inl:
  assumes "aoa L new_data tr thres folds metric = Inl e"
  shows "(length tr \<le> 1
            \<and> e = PyException ''At least two training instances need to be specified.'')
       \<or> (1 < length tr \<and> (e = ValueError \<or> e = IndexError))"
proof (cases "length tr \<le> 1")
  case True
  with assms show ?thesis by (simp add: aoa_unfold)
next
  case False
  with assms show ?thesis
    by (auto simp: aoa_unfold split: sum.splits
        dest: ball_tree_query_Inl aoa_from_distances_Inl)
qed

text \<open>
  Claim C5, as amended. \<^verbatim>\<open>aoa\<close> raises its own exception exactly when there
  are fewer than two training instances, and then before anything is computed. With two
  or more it still raises, a \<open>ValueError\<close> or an \<open>IndexError\<close>, unless all of this
  holds: the training rows have at least one feature and no feature is constant (a
  constant feature standardises to NaN, which \<^verbatim>\<open>BallTree\<close> refuses); the tree
  knows the metric; the new data is not empty, has the same number of features and no
  constant feature (so at least two distinct new rows); \<open>thres\<close> lies in \<open>[0, 1]\<close>; the
  fold indices are absent, empty or list as many indices as there are training
  instances. Then it returns. The arithmetic is exact.
\<close>

theorem aoa_raises_iff:
  "((\<exists>msg. aoa L new_data tr thres folds metric = Inl (PyException msg)) \<longleftrightarrow> length tr \<le> 1)
   \<and> (length tr \<le> 1 \<longrightarrow>
        aoa L new_data tr thres folds metric
          = Inl (PyException ''At least two training instances need to be specified.''))
   \<and> (1 < length tr \<longrightarrow>
        ((\<exists>r. aoa L new_data tr thres folds metric = Inr r)
           \<longleftrightarrow> 0 < length (hd tr) \<and> frame_ok (length (hd tr)) tr
               \<and> (\<exists>d. metrics L metric (length (hd tr)) = Some d)
               \<and> new_data \<noteq> [] \<and> frame_ok (length (hd tr)) new_data
               \<and> 0 \<le> thres \<and> thres \<le> 1 \<and> folds_fit folds (length tr)))
   \<and> (1 < length tr \<longrightarrow>
        (\<forall>e. aoa L new_data tr thres folds metric = Inl e \<longrightarrow> e = ValueError \<or> e = IndexError))"
proof (intro conjI impI allI)
  show "(\<exists>msg. aoa L new_data tr thres folds metric = Inl (PyException msg)) \<longleftrightarrow> length tr \<le> 1"
  proof
    assume "\<exists>msg. aoa L new_data tr thres folds metric = Inl (PyException msg)"
    then obtain msg where "aoa L new_data tr thres folds metric = Inl (PyException msg)" ..
    from aoa_Inl [OF this] show "length tr \<le> 1" by auto
  next
    assume "length tr \<le> 1"
    then show "\<exists>msg. aoa L new_data tr thres folds metric = Inl (PyException msg)"
      by (simp add: aoa_unfold)
  qed
next
  assume "length tr \<le> 1"
  then show "aoa L new_data tr thres folds metric
      = Inl (PyException ''At least two training instances need to be specified.'')"
    by (simp add: aoa_unfold)
next
  assume "1 < length tr"
  then show "(\<exists>r. aoa L new_data tr thres folds metric = Inr r)
           \<longleftrightarrow> 0 < length (hd tr) \<and> frame_ok (length (hd tr)) tr
               \<and> (\<exists>d. metrics L metric (length (hd tr)) = Some d)
               \<and> new_data \<noteq> [] \<and> frame_ok (length (hd tr)) new_data
               \<and> 0 \<le> thres \<and> thres \<le> 1 \<and> folds_fit folds (length tr)"
    by (rule aoa_Inr_iff)
next
  fix e
  assume "1 < length tr" and "aoa L new_data tr thres folds metric = Inl e"
  from aoa_Inl [OF this(2)] this(1) show "e = ValueError \<or> e = IndexError"
    by auto
qed

lemma frame_train: "frame_ok (Suc 0) [[-1], [1]]"
  by (simp add: frame_ok_def col_std_def col_mean_def column_def)

lemma frame_new: "frame_ok (Suc 0) [[-1], [-1], [0], [0], [0], [2]]"
  by (simp add: frame_ok_def col_std_def col_mean_def column_def)

theorem aoa_raises_iff_witness:
  "1 < length [[-1], [1 :: real]]
   \<and> (\<exists>r. aoa euclid_lib [[-1], [-1], [0], [0], [0], [2]] [[-1], [1]] (19/20)
            (Some [[0], [1]]) ''euclidean'' = Inr r)
   \<and> \<not> (\<exists>msg. aoa euclid_lib [[-1], [-1], [0], [0], [0], [2]] [[-1], [1]] (19/20)
                (Some [[0], [1]]) ''euclidean'' = Inl (PyException msg))"
  using aoa_raises_iff [of euclid_lib "[[-1], [-1], [0], [0], [0], [2]]" "[[-1], [1]]" "19/20"
      "Some [[0], [1]]" "''euclidean''"]
  by (simp add: frame_train frame_new folds_fit_def euclid_lib_def)

text \<open>
  Claim C5 as stated fails: two training instances, and \<^verbatim>\<open>aoa\<close> raises. Once
  because the two training rows are equal, once because there is one new row only (both
  standardise to NaN), once because the folds list one index only, once because the
  quantile is 2.
\<close>

theorem aoa_never_raises_counterexample:
  "length [[1], [1 :: real]] = 2
   \<and> aoa euclid_lib [[-1], [1]] [[1], [1]] (19/20) None ''euclidean'' = Inl ValueError
   \<and> aoa euclid_lib [[5]] [[-1], [1]] (19/20) None ''euclidean'' = Inl ValueError
   \<and> aoa euclid_lib [[-1], [1]] [[-1], [1]] (19/20) (Some [[0]]) ''euclidean'' = Inl IndexError
   \<and> aoa euclid_lib [[-1], [1]] [[-1], [1]] 2 None ''euclidean'' = Inl ValueError"
proof -
  have same: "standardise [[1], [1]] = [[NaN], [NaN]]"
    by (simp add: standardise_def col_std_def col_mean_def column_def)
  have one: "standardise [[5]] = [[NaN]]"
    by (simp add: standardise_def col_std_def col_mean_def column_def)
  have q: "ball_tree_query euclid_lib ''euclidean'' [[Fin (-1)], [Fin 1]] [[Fin (-1)], [Fin 1]]
      = Inr [0, 0]"
    by (simp add: ball_tree_query_def finite_rows_def euclid_lib_def euclidean_1d)
  have a: "aoa euclid_lib [[-1], [1]] [[1], [1]] (19/20) None ''euclidean'' = Inl ValueError"
    by (simp add: aoa_unfold same std_train ball_tree_query_def finite_rows_def)
  have b: "aoa euclid_lib [[5]] [[-1], [1]] (19/20) None ''euclidean'' = Inl ValueError"
    by (simp add: aoa_unfold one std_train ball_tree_query_def finite_rows_def euclid_lib_def)
  have c: "aoa euclid_lib [[-1], [1]] [[-1], [1]] (19/20) (Some [[0]]) ''euclidean''
      = Inl IndexError"
    by (simp add: aoa_unfold std_train q run_train_dist aoa_from_distances_def mask_folds_def
        folds_table_def instance_fold_id_def mask_row_def)
  have d: "aoa euclid_lib [[-1], [1]] [[-1], [1]] 2 None ''euclidean'' = Inl ValueError"
    by (simp add: aoa_unfold std_train q run_train_dist aoa_from_distances_def mask_folds_def
        aoa_thres_def quantile_def)
  from a b c d show ?thesis by simp
qed

section \<open>Scores and mask of aoa\<close>

lemma nonneg_or_nan_iff:
  "nonneg_or_nan x \<longleftrightarrow> x = NaN \<or> x = PInf \<or> (\<exists>a\<ge>0. x = Fin a)"
  by (cases x) (auto simp: nonneg_or_nan_def fl_le_def)

lemma nonneg_or_nan_simps [simp]:
  "nonneg_or_nan NaN" "nonneg_or_nan PInf" "\<not> nonneg_or_nan NInf"
  "nonneg_or_nan (Fin a) \<longleftrightarrow> 0 \<le> a"
  by (auto simp: nonneg_or_nan_iff)



















lemma fl_div_NaN_right [simp]: "fl_div x NaN = NaN"
  by (cases x) simp_all









section \<open>The normalisation constant of aoa\<close>










section \<open>Properties of the variogram estimator\<close>





































section \<open>Properties of cross\_val\_score\<close>

text \<open>
  Claim C3. With \<^verbatim>\<open>cv = None\<close> the function evaluates the name \<^verbatim>\<open>KFold\<close>,
  which the module never imports: the call ends in \<open>NameError\<close> before any fold is
  fitted or scored, whatever the model, the data and the scorer.
\<close>

theorem cross_val_score_None_raises:
  "cross_val_score kfold fit scorer model coordinates X y None = Inl (NameError ''KFold'')"
  by (simp add: cross_val_score_def module_globals_def)

end
